theory Spec2Isabelle
  imports Main "HOL-Library.AList"
begin

section \<open>The named-tuple factory of \<^verbatim>\<open>Lib/collections.py\<close>\<close>

text \<open>
  \<^verbatim>\<open>NamedTuple(typename, s, verbose=False)\<close> parses the field specification \<^verbatim>\<open>s\<close>,
  validates the characters of the names, writes the source text of a subclass of
  \<^verbatim>\<open>tuple\<close>, executes that text and returns the class.  The embedding follows the function
  line by line.  The executed class statement is modelled by its meaning: the class
  namespace that the statements of the class body assign to, in their order, under the
  names that the compiler gives them.

  Strings are lists of characters, and a character is a code point below 256 (the ASCII
  range and the Latin-1 supplement); the character classes are those of the language on
  this range.  The \<^verbatim>\<open>verbose\<close> flag only prints the generated source; the output stream
  is not part of the model.
\<close>

subsection \<open>The string methods used by the factory\<close>

text \<open>
  The exceptions the factory and the generated class can raise.  \<open>ValueError\<close> is the
  one that line 40 raises for the names (the invalid-name error of the specification).
  The \<^verbatim>\<open>ValueError\<close> with which \<^verbatim>\<open>sys._getframe\<close> answers a call stack that is not
  deep enough is raised elsewhere and for another reason, and is kept apart as
  \<open>GetframeValueError\<close>.
\<close>

datatype error =
    AttributeError | ValueError | SyntaxError | TypeError | IndexError | KeyError
  | GetframeValueError

text \<open>
  The argument \<^verbatim>\<open>s\<close> is dynamically typed: a caller can pass a string or a sequence of
  strings.
\<close>

datatype field_spec = Str string | Seq "string list"

text \<open>
  \<^verbatim>\<open>c.isspace()\<close>: the white space of the language below 256, with the separators
  \<^verbatim>\<open>0x1C\<close> to \<^verbatim>\<open>0x1F\<close>, the next-line character \<^verbatim>\<open>0x85\<close> and the no-break space
  \<^verbatim>\<open>0xA0\<close>.
\<close>

definition whitespace :: "char list" where
  "whitespace = [CHR 0x09, CHR 0x0A, CHR 0x0B, CHR 0x0C, CHR 0x0D,
                 CHR 0x1C, CHR 0x1D, CHR 0x1E, CHR 0x1F, CHR 0x20, CHR 0x85, CHR 0xA0]"

definition ascii_letters :: "char list" where
  "ascii_letters = ''abcdefghijklmnopqrstuvwxyzABCDEFGHIJKLMNOPQRSTUVWXYZ''"

definition digits :: "char list" where
  "digits = ''0123456789''"

text \<open>
  The letters of the Latin-1 supplement: the ordinal indicators \<^verbatim>\<open>0xAA\<close> and \<^verbatim>\<open>0xBA\<close>,
  the micro sign \<^verbatim>\<open>0xB5\<close>, and \<^verbatim>\<open>0xC0\<close> to \<^verbatim>\<open>0xFF\<close> without the signs \<^verbatim>\<open>0xD7\<close> and
  \<^verbatim>\<open>0xF7\<close>.  Its numeric characters: the superscripts \<^verbatim>\<open>0xB2\<close>, \<^verbatim>\<open>0xB3\<close>, \<^verbatim>\<open>0xB9\<close>
  and the fractions \<^verbatim>\<open>0xBC\<close> to \<^verbatim>\<open>0xBE\<close>.
\<close>

definition latin1_letter :: "char \<Rightarrow> bool" where
  "latin1_letter c =
     (c \<in> set [CHR 0xAA, CHR 0xB5, CHR 0xBA]
      \<or> (192 \<le> (of_char c :: nat) \<and> c \<noteq> CHR 0xD7 \<and> c \<noteq> CHR 0xF7))"

definition latin1_numbers :: "char list" where
  "latin1_numbers = [CHR 0xB2, CHR 0xB3, CHR 0xB9, CHR 0xBC, CHR 0xBD, CHR 0xBE]"

definition isspace_char :: "char \<Rightarrow> bool" where
  "isspace_char c = (c \<in> set whitespace)"

definition isalpha_char :: "char \<Rightarrow> bool" where
  "isalpha_char c = (c \<in> set ascii_letters \<or> latin1_letter c)"

definition isalnum_char :: "char \<Rightarrow> bool" where
  "isalnum_char c = (isalpha_char c \<or> c \<in> set digits \<or> c \<in> set latin1_numbers)"

text \<open>\<^verbatim>\<open>str.isalnum()\<close>: every character is alphanumeric and there is at least one.\<close>

definition isalnum :: "string \<Rightarrow> bool" where
  "isalnum t = (t \<noteq> [] \<and> list_all isalnum_char t)"

text \<open>\<^verbatim>\<open>t.replace(old, new)\<close> for a one-character \<^verbatim>\<open>old\<close>.\<close>

definition str_replace :: "char \<Rightarrow> string \<Rightarrow> string \<Rightarrow> string" where
  "str_replace old new t = concat (map (\<lambda>c. if c = old then new else [c]) t)"

text \<open>
  \<^verbatim>\<open>t.split()\<close>: the maximal runs of non-whitespace characters, in order.  The first
  argument is the word read so far.
\<close>

fun split_from :: "string \<Rightarrow> string \<Rightarrow> string list" where
  "split_from cur [] = (if cur = [] then [] else [cur])"
| "split_from cur (c # cs) =
     (if isspace_char c
      then (if cur = [] then split_from [] cs else cur # split_from [] cs)
      else split_from (cur @ [c]) cs)"

definition str_split :: "string \<Rightarrow> string list" where
  "str_split t = split_from [] t"

text \<open>\<^verbatim>\<open>sep.join(parts)\<close>.\<close>

fun join :: "string \<Rightarrow> string list \<Rightarrow> string" where
  "join sep [] = []"
| "join sep [x] = x"
| "join sep (x # y # ys) = x @ sep @ join sep (y # ys)"

subsection \<open>Parsing and validating the names (lines 38 to 40)\<close>

text \<open>\<^verbatim>\<open>field_names = tuple(s.replace(',', ' ').split())\<close>\<close>

definition parse_fields :: "string \<Rightarrow> string list" where
  "parse_fields txt = str_split (str_replace CHR '','' '' '' txt)"

text \<open>\<^verbatim>\<open>''.join((typename,) + field_names).replace('_', '').isalnum()\<close>\<close>

definition names_ok :: "string \<Rightarrow> string list \<Rightarrow> bool" where
  "names_ok typename field_names =
     isalnum (str_replace CHR ''_'' [] (join [] (typename # field_names)))"

subsection \<open>The generated class (lines 41 to 55)\<close>

text \<open>
  \<^verbatim>\<open>argtxt = repr(field_names).replace("'", "")[1:-1]\<close>.  The \<^verbatim>\<open>repr\<close> of a tuple of
  strings puts each string in quotes, separates them by a comma and a blank and writes
  a trailing comma after a single element.  (The names have passed the validation and
  hold no character that \<^verbatim>\<open>repr\<close> would escape.)
\<close>

definition repr_str_tuple :: "string list \<Rightarrow> string" where
  "repr_str_tuple names =
     ''('' @ join '', '' (map (\<lambda>n. [CHR 0x27] @ n @ [CHR 0x27]) names)
          @ (if length names = 1 then '','' else []) @ '')''"

definition argtxt :: "string list \<Rightarrow> string" where
  "argtxt field_names = butlast (tl (str_replace (CHR 0x27) [] (repr_str_tuple field_names)))"

text \<open>\<^verbatim>\<open>reprtxt = ', '.join('%s=%%r' % name for name in field_names)\<close>\<close>

definition reprtxt :: "string list \<Rightarrow> string" where
  "reprtxt field_names = join '', '' (map (\<lambda>nm. nm @ ''=%r'') field_names)"

text \<open>
  The names in the generated source are identifiers, and the compiler does not keep every
  identifier as it is written.  It brings an identifier into the normal form NFKC: below
  256 this changes the ordinal indicators (to \<^verbatim>\<open>a\<close> and \<^verbatim>\<open>o\<close>) and the micro sign (to
  the Greek letter mu, which is no character of the model: \<open>nfkc\<close> leaves it, and the
  classes whose names hold it are not followed, see \<open>followed\<close> below).  And inside a
  class body it mangles a private name, one that begins with two underscores and does not
  end with two: the name gets an underscore and the class name without its leading
  underscores in front, unless the class name is made of underscores only.
\<close>

definition nfkc_stable :: "string \<Rightarrow> bool" where
  "nfkc_stable t = list_all (\<lambda>c. c \<notin> set [CHR 0xAA, CHR 0xB5, CHR 0xBA]) t"

definition nfkc :: "string \<Rightarrow> string" where
  "nfkc t = map (\<lambda>c. if c = CHR 0xAA then CHR ''a'' else if c = CHR 0xBA then CHR ''o'' else c) t"

definition is_private :: "string \<Rightarrow> bool" where
  "is_private nm = (take 2 nm = ''__'' \<and> take 2 (rev nm) \<noteq> ''__'')"

definition mangle :: "string \<Rightarrow> string \<Rightarrow> string" where
  "mangle classname nm =
     (let stripped = dropWhile (\<lambda>c. c = CHR ''_'') classname
      in if is_private nm \<and> stripped \<noteq> [] then ''_'' @ stripped @ nm else nm)"

text \<open>The identifiers that the field names are in the body of the class \<open>typename\<close>.\<close>

definition identifiers :: "string \<Rightarrow> string list \<Rightarrow> string list" where
  "identifiers typename field_names = map (\<lambda>f. mangle (nfkc typename) (nfkc f)) field_names"

text \<open>
  What a name of the class namespace is bound to: the docstring, the two tuples, the three
  functions of the template (with the text that the template substitutes into them), a
  \<^verbatim>\<open>property(itemgetter(i))\<close>, and the module name.
\<close>

datatype member =
    DocString string
  | Slots "string list"
  | FieldsTuple "string list"
  | NewFunction "string list"
  | ReprFunction string
  | ReplaceFunction string "string list"
  | Property nat
  | ModuleName string

text \<open>
  The class: its name and field names as the factory got them, and its namespace.
\<close>

record record_type =
  type_name :: string
  field_names :: "string list"
  namespace :: "string \<rightharpoonup> member"

text \<open>
  The class body of the template up to \<^verbatim>\<open>__replace__\<close>, as the assignments it makes.
  \<^verbatim>\<open>__fields__\<close> is a tuple of string literals and \<^verbatim>\<open>__repr__\<close> formats the string
  literal \<^verbatim>\<open>'typename(reprtxt)' % self\<close>: these hold the names as the factory got them.
  The parameters of \<^verbatim>\<open>__new__\<close> after \<^verbatim>\<open>cls\<close> are identifiers, \<open>ids\<close>.
  \<^verbatim>\<open>__replace__\<close> calls what the name \<^verbatim>\<open>typename\<close> refers to on the pairs of the literal
  \<^verbatim>\<open>field_names\<close> and \<^verbatim>\<open>self\<close>.
\<close>

definition template_body :: "string \<Rightarrow> string list \<Rightarrow> string list \<Rightarrow> (string \<rightharpoonup> member)" where
  "template_body typename fnames ids =
     [''__doc__'' \<mapsto> DocString (typename @ ''('' @ argtxt fnames @ '')''),
      ''__slots__'' \<mapsto> Slots [],
      ''__fields__'' \<mapsto> FieldsTuple fnames,
      ''__new__'' \<mapsto> NewFunction (''cls'' # ids),
      ''__repr__'' \<mapsto> ReprFunction (typename @ ''('' @ reprtxt fnames @ '')''),
      ''__replace__'' \<mapsto> ReplaceFunction typename fnames]"

text \<open>
  \<^verbatim>\<open>for i, name in enumerate(field_names): template += '%s = property(itemgetter(%d))'\<close>:
  one more assignment in the class body for each field, after those above.
\<close>

fun add_properties :: "(nat \<times> string) list \<Rightarrow> (string \<rightharpoonup> member) \<Rightarrow> (string \<rightharpoonup> member)" where
  "add_properties [] ns = ns"
| "add_properties ((i, nm) # rest) ns = add_properties rest (ns(nm \<mapsto> Property i))"

subsection \<open>Executing the template (lines 58 to 63)\<close>

text \<open>
  The compiler refuses the generated source when the type name or a field name is not an
  identifier or is a keyword, when two parameters of \<^verbatim>\<open>__new__\<close> are the same identifier,
  and (in the interpreters this file was written for) when a function has more than 255
  parameters.  An identifier begins with a letter or an underscore and goes on with
  letters, digits, underscores and the middle dot \<^verbatim>\<open>0xB7\<close>.
\<close>

definition kwlist :: "string list" where
  "kwlist = [''False'', ''None'', ''True'', ''and'', ''as'', ''assert'', ''break'', ''class'',
             ''continue'', ''def'', ''del'', ''elif'', ''else'', ''except'', ''finally'', ''for'',
             ''from'', ''global'', ''if'', ''import'', ''in'', ''is'', ''lambda'', ''nonlocal'',
             ''not'', ''or'', ''pass'', ''raise'', ''return'', ''try'', ''while'', ''with'',
             ''yield'']"

definition is_identifier :: "string \<Rightarrow> bool" where
  "is_identifier t =
     (case t of
        [] \<Rightarrow> False
      | c # cs \<Rightarrow> (isalpha_char c \<or> c = CHR ''_'')
                 \<and> list_all (\<lambda>d. isalpha_char d \<or> d \<in> set digits \<or> d = CHR ''_''
                                 \<or> d = CHR 0xB7) cs)"

definition is_name :: "string \<Rightarrow> bool" where
  "is_name t = (is_identifier t \<and> t \<notin> set kwlist)"

definition compiles :: "string \<Rightarrow> string list \<Rightarrow> bool" where
  "compiles typename fnames =
     (is_name typename \<and> list_all is_name fnames
      \<and> distinct (''cls'' # identifiers typename fnames)
      \<and> length (''cls'' # identifiers typename fnames) \<le> 255)"

text \<open>
  Running the class body looks the names \<^verbatim>\<open>property\<close> and \<^verbatim>\<open>itemgetter\<close> up in the
  class namespace first.  After the line of a field with one of these names the name is
  a property object, and the line of the next field calls it: \<^verbatim>\<open>TypeError\<close>.  A field
  \<^verbatim>\<open>__slots__\<close> replaces the empty tuple by a property object, which the making of the
  class cannot read as slots: \<^verbatim>\<open>TypeError\<close> as well.
\<close>

definition class_body_fails :: "string list \<Rightarrow> bool" where
  "class_body_fails ids =
     (list_ex (\<lambda>f. f \<in> set [''property'', ''itemgetter'']) (butlast ids)
      \<or> ''__slots__'' \<in> set ids)"

text \<open>
  \<^verbatim>\<open>exec(template, m)\<close>, and \<^verbatim>\<open>result = m[typename]\<close>: the class statement binds the
  class to the identifier that \<^verbatim>\<open>typename\<close> is for the compiler, so the lookup of
  \<^verbatim>\<open>typename\<close> itself is a \<^verbatim>\<open>KeyError\<close> when the two differ.
\<close>

definition exec_template :: "string \<Rightarrow> string list \<Rightarrow> error + record_type" where
  "exec_template typename fnames =
     (if \<not> compiles typename fnames then Inl SyntaxError
      else if class_body_fails (identifiers typename fnames) then Inl TypeError
      else if \<not> nfkc_stable typename then Inl KeyError
      else Inr \<lparr>type_name = typename, field_names = fnames,
                namespace = add_properties (enumerate 0 (identifiers typename fnames))
                              (template_body typename fnames (identifiers typename fnames))\<rparr>)"

text \<open>
  \<^verbatim>\<open>if hasattr(_sys, '_getframe'): result.__module__ = _sys._getframe(1).f_globals['__name__']\<close>.
  What the call finds: an interpreter without \<^verbatim>\<open>_getframe\<close>; no frame below the
  factory's own (\<^verbatim>\<open>_getframe(1)\<close> raises \<^verbatim>\<open>ValueError\<close>); or the frame of the caller,
  with the \<^verbatim>\<open>__name__\<close> entry of its globals, if there is one (\<^verbatim>\<open>KeyError\<close> if not).
\<close>

datatype caller = NoGetframe | NoFrame | Frame "string option"

definition set_module :: "caller \<Rightarrow> record_type \<Rightarrow> error + record_type" where
  "set_module c result =
     (case c of
        NoGetframe \<Rightarrow> Inr result
      | NoFrame \<Rightarrow> Inl GetframeValueError
      | Frame None \<Rightarrow> Inl KeyError
      | Frame (Some m) \<Rightarrow>
          Inr (result\<lparr>namespace := (namespace result)(''__module__'' \<mapsto> ModuleName m)\<rparr>))"

definition NamedTuple :: "string \<Rightarrow> field_spec \<Rightarrow> caller \<Rightarrow> error + record_type" where
  "NamedTuple typename s c =
     (case s of
        Seq names \<Rightarrow> Inl AttributeError
      | Str txt \<Rightarrow>
          (let fnames = parse_fields txt in
           if \<not> names_ok typename fnames then Inl ValueError
           else (case exec_template typename fnames of
                   Inl e \<Rightarrow> Inl e
                 | Inr result \<Rightarrow> set_module c result)))"

subsection \<open>What the model follows\<close>






subsection \<open>Calling the class\<close>






subsection \<open>Attributes, display and replacement\<close>







subsection \<open>Plain names\<close>





subsection \<open>Names that are not identifiers\<close>

text \<open>\<^verbatim>\<open>t.isdigit()\<close> on the ASCII digits, and a name whose first character is a digit.\<close>

definition purely_numeric :: "string \<Rightarrow> bool" where
  "purely_numeric t = (t \<noteq> [] \<and> list_all (\<lambda>c. c \<in> set digits) t)"

definition begins_with_digit :: "string \<Rightarrow> bool" where
  "begins_with_digit t = (case t of [] \<Rightarrow> False | c # cs \<Rightarrow> c \<in> set digits)"

subsection \<open>Example classes\<close>





section \<open>The factory\<close>

lemma NamedTuple_Str:
  "NamedTuple typename (Str t) c =
     (if \<not> names_ok typename (parse_fields t) then Inl ValueError
      else (case exec_template typename (parse_fields t) of
              Inl e \<Rightarrow> Inl e
            | Inr result \<Rightarrow> set_module c result))"
  by (simp add: NamedTuple_def Let_def)

lemma exec_template_not_ValueError: "exec_template typename fs \<noteq> Inl ValueError"
  by (simp add: exec_template_def)

lemma set_module_not_ValueError: "set_module c result \<noteq> Inl ValueError"
  by (simp add: set_module_def split: caller.splits option.splits)

lemma remove_underscores: "str_replace CHR ''_'' [] t = filter (\<lambda>ch. ch \<noteq> CHR ''_'') t"
  by (induction t) (simp_all add: str_replace_def)

lemma join_empty: "join [] ns = concat ns"
  by (induction "[] :: string" ns rule: join.induct) simp_all

lemma names_ok_chars:
  "names_ok typename fs \<longleftrightarrow>
     (\<forall>n \<in> set (typename # fs). \<forall>ch \<in> set n. isalnum_char ch \<or> ch = CHR ''_'')
     \<and> (\<exists>n \<in> set (typename # fs). \<exists>ch \<in> set n. ch \<noteq> CHR ''_'')"
proof -
  have "names_ok typename fs \<longleftrightarrow>
          filter (\<lambda>ch. ch \<noteq> CHR ''_'') (concat (typename # fs)) \<noteq> []
          \<and> (\<forall>ch \<in> set (filter (\<lambda>ch. ch \<noteq> CHR ''_'') (concat (typename # fs))). isalnum_char ch)"
    by (simp only: names_ok_def isalnum_def remove_underscores join_empty list_all_iff)
  also have "\<dots> \<longleftrightarrow>
     (\<forall>n \<in> set (typename # fs). \<forall>ch \<in> set n. isalnum_char ch \<or> ch = CHR ''_'')
     \<and> (\<exists>n \<in> set (typename # fs). \<exists>ch \<in> set n. ch \<noteq> CHR ''_'')"
    unfolding filter_empty_conv by (simp only: set_filter set_concat) blast
  finally show ?thesis .
qed

text \<open>
  Claim C3.  For every type name and every field specification given as a string, the
  factory raises the invalid-name error (the \<^verbatim>\<open>ValueError\<close> of line 40) exactly when
  the type name joined with the parsed field names, underscores removed, is not
  alphanumeric in the sense of \<^verbatim>\<open>str.isalnum\<close>; when it is alphanumeric the validation
  raises nothing.  Character by character, the joined names pass exactly when every
  character of every name is alphanumeric or an underscore and some character is not an
  underscore.
\<close>

theorem validation_error_iff:
  "(NamedTuple typename (Str t) caller = Inl ValueError \<longleftrightarrow>
      \<not> isalnum (str_replace CHR ''_'' [] (join [] (typename # parse_fields t))))
   \<and> (isalnum (str_replace CHR ''_'' [] (join [] (typename # parse_fields t))) \<longleftrightarrow>
        (\<forall>n \<in> set (typename # parse_fields t). \<forall>ch \<in> set n. isalnum_char ch \<or> ch = CHR ''_'')
        \<and> (\<exists>n \<in> set (typename # parse_fields t). \<exists>ch \<in> set n. ch \<noteq> CHR ''_''))"
proof
  show "NamedTuple typename (Str t) caller = Inl ValueError \<longleftrightarrow>
      \<not> isalnum (str_replace CHR ''_'' [] (join [] (typename # parse_fields t)))"
    using exec_template_not_ValueError [of typename "parse_fields t"] set_module_not_ValueError
    by (auto simp: NamedTuple_Str names_ok_def split: sum.splits)
  show "isalnum (str_replace CHR ''_'' [] (join [] (typename # parse_fields t))) \<longleftrightarrow>
        (\<forall>n \<in> set (typename # parse_fields t). \<forall>ch \<in> set n. isalnum_char ch \<or> ch = CHR ''_'')
        \<and> (\<exists>n \<in> set (typename # parse_fields t). \<exists>ch \<in> set n. ch \<noteq> CHR ''_'')"
    using names_ok_chars [of typename "parse_fields t"] by (simp only: names_ok_def)
qed

lemmas char_defs = isalnum_char_def isalpha_char_def latin1_letter_def latin1_numbers_def
       isspace_char_def whitespace_def ascii_letters_def digits_def

lemmas parse_defs = parse_fields_def str_split_def str_replace_def

lemma parse_x_y: "parse_fields ''x y'' = [''x'', ''y'']"
  by (simp add: parse_defs isspace_char_def whitespace_def)

lemma parse_a_b: "parse_fields ''a b'' = [''a'', ''b'']"
  by (simp add: parse_defs isspace_char_def whitespace_def)

lemma parse_empty: "parse_fields [] = []"
  by (simp add: parse_defs)

theorem validation_error_iff_witness:
  "NamedTuple ''Bad Name!'' (Str ''a b'') NoGetframe = Inl ValueError
   \<and> NamedTuple ''_'' (Str []) NoGetframe = Inl ValueError
   \<and> NamedTuple ''Point'' (Str ''x y'') (Frame (Some ''__main__'')) \<noteq> Inl ValueError
   \<and> NamedTuple ''Point'' (Str ''x y'') NoFrame \<noteq> Inl ValueError"
proof -
  have bad: "\<not> (\<forall>n \<in> set (''Bad Name!'' # parse_fields ''a b'').
                  \<forall>ch \<in> set n. isalnum_char ch \<or> ch = CHR ''_'')"
    by (simp add: parse_a_b char_defs)
  have under: "\<not> (\<exists>n \<in> set (''_'' # parse_fields []). \<exists>ch \<in> set n. ch \<noteq> CHR ''_'')"
    by (simp add: parse_empty)
  have good: "(\<forall>n \<in> set (''Point'' # parse_fields ''x y'').
                  \<forall>ch \<in> set n. isalnum_char ch \<or> ch = CHR ''_'')
             \<and> (\<exists>n \<in> set (''Point'' # parse_fields ''x y''). \<exists>ch \<in> set n. ch \<noteq> CHR ''_'')"
    by (simp add: parse_x_y char_defs)
  from validation_error_iff [of "''Bad Name!''" "''a b''" NoGetframe] bad
  have 1: "NamedTuple ''Bad Name!'' (Str ''a b'') NoGetframe = Inl ValueError" by blast
  from validation_error_iff [of "''_''" "[]" NoGetframe] under
  have 2: "NamedTuple ''_'' (Str []) NoGetframe = Inl ValueError" by blast
  from validation_error_iff [of "''Point''" "''x y''" "Frame (Some ''__main__'')"] good
  have 3: "NamedTuple ''Point'' (Str ''x y'') (Frame (Some ''__main__'')) \<noteq> Inl ValueError" by blast
  from validation_error_iff [of "''Point''" "''x y''" NoFrame] good
  have 4: "NamedTuple ''Point'' (Str ''x y'') NoFrame \<noteq> Inl ValueError" by blast
  from 1 2 3 4 show ?thesis by blast
qed

lemma replace_comma_idem:
  "str_replace CHR '','' '' '' (str_replace CHR '','' '' '' t) = str_replace CHR '','' '' '' t"
  by (induction t) (simp_all add: str_replace_def)

lemma parse_fields_commas:
  "parse_fields (str_replace CHR '','' '' '' t) = parse_fields t"
  by (simp add: parse_fields_def replace_comma_idem)

text \<open>
  Claim C7, as amended.  The factory takes the field specification as one string in which
  commas count as blanks: writing blanks for the commas of a specification gives the same
  result (so \<^verbatim>\<open>'x,y'\<close> and \<^verbatim>\<open>'x y'\<close> give the same type).  A sequence of field names is
  not accepted: the call of \<^verbatim>\<open>s.replace\<close> on it raises \<^verbatim>\<open>AttributeError\<close>.
\<close>

theorem string_spellings_equivalent:
  "NamedTuple typename (Str (str_replace CHR '','' '' '' t)) caller
     = NamedTuple typename (Str t) caller
   \<and> NamedTuple typename (Seq names) caller = Inl AttributeError"
  by (simp add: NamedTuple_Str parse_fields_commas) (simp add: NamedTuple_def)

lemma Point_chars_ok: "names_ok ''Point'' [''x'', ''y'']"
  by (simp add: names_ok_chars char_defs)

text \<open>
  Claim C7 as stated fails: the list \<^verbatim>\<open>['x', 'y']\<close> does not give what the string
  \<^verbatim>\<open>'x y'\<close> gives.
\<close>

theorem sequence_spec_counterexample:
  "NamedTuple ''Point'' (Seq [''x'', ''y'']) (Frame (Some ''__main__''))
     \<noteq> NamedTuple ''Point'' (Str ''x y'') (Frame (Some ''__main__''))"
proof -
  have "NamedTuple ''Point'' (Str ''x y'') (Frame (Some ''__main__'')) \<noteq> Inl AttributeError"
    by (simp add: NamedTuple_Str parse_x_y Point_chars_ok exec_template_def set_module_def
        split: sum.splits)
  then show ?thesis by (simp add: NamedTuple_def)
qed

lemma digit_not_name_start: "c \<in> set digits \<Longrightarrow> \<not> (isalpha_char c \<or> c = CHR ''_'')"
  by (auto simp: digits_def isalpha_char_def ascii_letters_def latin1_letter_def)

lemma begins_with_digit_not_name: "begins_with_digit f \<Longrightarrow> \<not> is_name f"
  using digit_not_name_start
  by (auto simp: begins_with_digit_def is_name_def is_identifier_def split: list.splits)

lemma purely_numeric_begins: "purely_numeric f \<Longrightarrow> begins_with_digit f"
  by (cases f) (simp_all add: purely_numeric_def begins_with_digit_def)

text \<open>
  Claim C10.  When the type name joined with the parsed field names, underscores removed,
  is alphanumeric, the factory does not raise the invalid-name error (\<^verbatim>\<open>ValueError\<close>),
  also when a field name is purely numeric, begins with a digit or is a keyword; for such
  a field name the call fails later, in the compilation of the generated class source,
  with \<^verbatim>\<open>SyntaxError\<close>.
\<close>

theorem alnum_names_pass_validation:
  assumes "names_ok typename (parse_fields t)"
  shows "NamedTuple typename (Str t) caller \<noteq> Inl ValueError
       \<and> (list_ex (\<lambda>f. purely_numeric f \<or> begins_with_digit f \<or> f \<in> set kwlist) (parse_fields t)
            \<longrightarrow> NamedTuple typename (Str t) caller = Inl SyntaxError)"
proof -
  have bad: "\<not> is_name f" if "purely_numeric f \<or> begins_with_digit f \<or> f \<in> set kwlist" for f
    using that begins_with_digit_not_name purely_numeric_begins by (auto simp: is_name_def)
  have "\<not> compiles typename (parse_fields t)"
    if "list_ex (\<lambda>f. purely_numeric f \<or> begins_with_digit f \<or> f \<in> set kwlist) (parse_fields t)"
    using that bad by (auto simp: compiles_def list_ex_iff list_all_iff)
  moreover have "NamedTuple typename (Str t) caller \<noteq> Inl ValueError"
    using assms exec_template_not_ValueError [of typename "parse_fields t"]
          set_module_not_ValueError
    by (auto simp: NamedTuple_Str split: sum.splits)
  ultimately show ?thesis using assms by (auto simp: NamedTuple_Str exec_template_def)
qed

lemma parse_1_2x_class: "parse_fields ''1 2x class'' = [''1'', ''2x'', ''class'']"
  by (simp add: parse_defs isspace_char_def whitespace_def)

theorem alnum_names_pass_validation_witness:
  "names_ok ''T'' (parse_fields ''1 2x class'')
   \<and> list_ex (\<lambda>f. purely_numeric f \<or> begins_with_digit f \<or> f \<in> set kwlist) (parse_fields ''1 2x class'')
   \<and> NamedTuple ''T'' (Str ''1 2x class'') NoGetframe = Inl SyntaxError"
proof -
  have a: "names_ok ''T'' (parse_fields ''1 2x class'')"
    by (simp add: parse_1_2x_class names_ok_chars char_defs)
  have b: "list_ex (\<lambda>f. purely_numeric f \<or> begins_with_digit f \<or> f \<in> set kwlist) (parse_fields ''1 2x class'')"
    by (simp add: parse_1_2x_class purely_numeric_def digits_def)
  from alnum_names_pass_validation [OF a, of NoGetframe] a b show ?thesis by blast
qed

text \<open>
  Claim C8, as amended.  A field specification that repeats a name and passes the
  validation of the characters does not raise the invalid-name error: the call fails with
  \<^verbatim>\<open>SyntaxError\<close>, raised for the repeated parameter of \<^verbatim>\<open>__new__\<close> when the
  generated source is compiled.
\<close>

theorem duplicate_field_syntax_error:
  assumes "names_ok typename (parse_fields t)" and "\<not> distinct (parse_fields t)"
  shows "NamedTuple typename (Str t) caller = Inl SyntaxError"
proof -
  have "\<not> distinct (identifiers typename (parse_fields t))"
    using assms(2) by (auto simp: identifiers_def distinct_map)
  then show ?thesis using assms(1) by (simp add: NamedTuple_Str exec_template_def compiles_def)
qed

lemma parse_a_a: "parse_fields ''a a'' = [''a'', ''a'']"
  by (simp add: parse_defs isspace_char_def whitespace_def)

theorem duplicate_field_syntax_error_witness:
  "names_ok ''T'' (parse_fields ''a a'') \<and> \<not> distinct (parse_fields ''a a'')
   \<and> NamedTuple ''T'' (Str ''a a'') (Frame (Some ''__main__'')) = Inl SyntaxError"
proof -
  have a: "names_ok ''T'' (parse_fields ''a a'')" by (simp add: parse_a_a names_ok_chars char_defs)
  have b: "\<not> distinct (parse_fields ''a a'')" by (simp add: parse_a_a)
  from duplicate_field_syntax_error [OF a b] a b show ?thesis by blast
qed

text \<open>
  Claim C8 as stated fails at \<^verbatim>\<open>NamedTuple('T', 'a a')\<close>: the field \<^verbatim>\<open>a\<close> occurs twice
  and the error is not \<^verbatim>\<open>ValueError\<close>.
\<close>

theorem duplicate_field_counterexample:
  "\<not> distinct (parse_fields ''a a'')
   \<and> NamedTuple ''T'' (Str ''a a'') (Frame (Some ''__main__'')) \<noteq> Inl ValueError"
proof -
  have "names_ok ''T'' [''a'', ''a'']" by (simp add: names_ok_chars char_defs)
  then have "NamedTuple ''T'' (Str ''a a'') (Frame (Some ''__main__'')) = Inl SyntaxError"
    by (simp add: NamedTuple_Str parse_a_a exec_template_def compiles_def identifiers_def)
  then show ?thesis by (simp add: parse_a_a)
qed

section \<open>The generated class and its instances\<close>






























subsection \<open>The example classes\<close>

























subsection \<open>Witnesses\<close>




subsection \<open>Counterexamples at names that are not plain\<close>






subsection \<open>Replacement\<close>









subsection \<open>Display\<close>












end
